theory Spec2Isabelle
  imports Main "HOL-Library.AList"
begin

section \<open>Documents and the document store\<close>

text \<open>
  A stored document is a Python dict from field names to values. The values that occur
  are None, booleans, strings, datetimes (a point in time, as an integer), lists, and
  store-assigned identifiers. A dict is an association list read through \<open>map_of\<close>.
\<close>

datatype val = VNone | VBool bool | VStr string | VTime int | VList "val list" | VId nat

type_synonym doc = "(string \<times> val) list"

text \<open>\<^verbatim>\<open>d.get(k)\<close>: the value under \<open>k\<close>, None when the key is absent.\<close>

definition dict_get :: "doc \<Rightarrow> string \<Rightarrow> val" where
  "dict_get d k = (case map_of d k of None \<Rightarrow> VNone | Some v \<Rightarrow> v)"

datatype error =
    ValidationError "string list"
  | HTTPException nat string
  | StoreError string

text \<open>
  A reachable store: the documents of each named collection in store order, and how the
  store answers. \<open>read_error\<close> is the message of the exception a read raises (None when
  reads are answered); \<open>write_error c d\<close> is the message with which the store rejects the
  insert of \<open>d\<close> into collection \<open>c\<close> (None when the insert is accepted). The global
  handle \<^verbatim>\<open>db\<close> is \<open>None\<close> when no store is configured.
\<close>

record store =
  colls :: "string \<Rightarrow> doc list"
  read_error :: "string option"
  write_error :: "string \<Rightarrow> doc \<Rightarrow> string option"

type_synonym database = "store option"

text \<open>
  The store's equality match of a query dict against a document: a queried field matches
  when the document's value equals the queried value or is a list containing it; a field
  the document lacks matches only a queried None.
\<close>

definition field_matches :: "val option \<Rightarrow> val \<Rightarrow> bool" where
  "field_matches f q =
     (case f of
        None \<Rightarrow> q = VNone
      | Some v \<Rightarrow> v = q \<or> (case v of VList xs \<Rightarrow> q \<in> set xs | _ \<Rightarrow> False))"

definition matches :: "doc \<Rightarrow> doc \<Rightarrow> bool" where
  "matches q d = list_all (\<lambda>(k, v). field_matches (map_of d k) v) q"

text \<open>The driver's \<^verbatim>\<open>db[c].count_documents({})\<close>, \<^verbatim>\<open>db[c].find_one(q)\<close> and
  \<^verbatim>\<open>db[c].insert_one(d)\<close>.\<close>

definition count_documents :: "store \<Rightarrow> string \<Rightarrow> error + nat" where
  "count_documents st c =
     (case read_error st of
        Some m \<Rightarrow> Inl (StoreError m)
      | None \<Rightarrow> Inr (length (colls st c)))"

definition find_one :: "store \<Rightarrow> string \<Rightarrow> doc \<Rightarrow> error + doc option" where
  "find_one st c q =
     (case read_error st of
        Some m \<Rightarrow> Inl (StoreError m)
      | None \<Rightarrow> Inr (List.find (matches q) (colls st c)))"

definition insert_one :: "store \<Rightarrow> string \<Rightarrow> doc \<Rightarrow> error + store" where
  "insert_one st c d =
     (case write_error st c d of
        Some m \<Rightarrow> Inl (StoreError m)
      | None \<Rightarrow> Inr (st\<lparr>colls := (colls st)(c := colls st c @ [d])\<rparr>))"

subsection \<open>Document Store Adapter\<close>

text \<open>
  Modelled from the spec: the module \<^verbatim>\<open>database\<close> (\<^verbatim>\<open>create_document\<close>,
  \<^verbatim>\<open>get_documents\<close>) is imported by \<^verbatim>\<open>main.py\<close> and is not among the sources.
  create(collectionName, record) inserts one document, returns nothing on success and
  propagates a StoreError if the connection rejects the write; in degraded mode writes are
  skipped without error.
\<close>

definition create_document :: "database \<Rightarrow> string \<Rightarrow> doc \<Rightarrow> (error + unit) \<times> database" where
  "create_document db c d =
     (case db of
        None \<Rightarrow> (Inr (), None)
      | Some st \<Rightarrow>
          (case insert_one st c d of
             Inl e \<Rightarrow> (Inl e, Some st)
           | Inr st' \<Rightarrow> (Inr (), Some st')))"

text \<open>
  Modelled from the spec: query(collectionName, filter, limit) returns the matching
  documents in store order, capped at limit, and the empty sequence when no connection is
  configured.
\<close>

definition get_documents :: "database \<Rightarrow> string \<Rightarrow> doc \<Rightarrow> nat \<Rightarrow> error + doc list" where
  "get_documents db c q limit =
     (case db of
        None \<Rightarrow> Inr []
      | Some st \<Rightarrow>
          (case read_error st of
             Some m \<Rightarrow> Inl (StoreError m)
           | None \<Rightarrow> Inr (take limit (filter (matches q) (colls st c)))))"

section \<open>Schemas\<close>

text \<open>
  Field validators: what a typed field accepts from the keyword arguments. A required
  field refuses an absent key; a field with a default takes the default for an absent key;
  an Optional field also takes None. A text field takes text only. A bool field and a
  datetime field also take text that the validation library reads as a boolean or as a
  point in time; how it reads text belongs to the library and is the parameter
  \<open>coercion\<close> (None: the text is refused). Any other kind of value is refused.
\<close>

record coercion =
  bool_of_text :: "string \<Rightarrow> bool option"
  datetime_of_text :: "string \<Rightarrow> int option"

fun req_str :: "val option \<Rightarrow> string option" where
  "req_str (Some (VStr s)) = Some s"
| "req_str _ = None"

fun opt_str :: "val option \<Rightarrow> string option option" where
  "opt_str None = Some None"
| "opt_str (Some VNone) = Some None"
| "opt_str (Some (VStr s)) = Some (Some s)"
| "opt_str _ = None"

fun def_str :: "string \<Rightarrow> val option \<Rightarrow> string option" where
  "def_str dflt None = Some dflt"
| "def_str dflt (Some (VStr s)) = Some s"
| "def_str dflt _ = None"

fun def_bool :: "(string \<Rightarrow> bool option) \<Rightarrow> bool \<Rightarrow> val option \<Rightarrow> bool option" where
  "def_bool rd dflt None = Some dflt"
| "def_bool rd dflt (Some (VBool b)) = Some b"
| "def_bool rd dflt (Some (VStr x)) = rd x"
| "def_bool rd dflt _ = None"

fun opt_time :: "(string \<Rightarrow> int option) \<Rightarrow> val option \<Rightarrow> int option option" where
  "opt_time rd None = Some None"
| "opt_time rd (Some VNone) = Some None"
| "opt_time rd (Some (VTime t)) = Some (Some t)"
| "opt_time rd (Some (VStr x)) = (case rd x of None \<Rightarrow> None | Some t \<Rightarrow> Some (Some t))"
| "opt_time rd _ = None"

fun str_items :: "val list \<Rightarrow> string list option" where
  "str_items [] = Some []"
| "str_items (VStr s # vs) = (case str_items vs of None \<Rightarrow> None | Some ss \<Rightarrow> Some (s # ss))"
| "str_items (_ # vs) = None"

fun str_list :: "val option \<Rightarrow> string list option" where
  "str_list None = Some []"
| "str_list (Some (VList vs)) = str_items vs"
| "str_list _ = None"

text \<open>The names of the fields a validator refuses, in declaration order.\<close>

definition failed :: "(string \<times> bool) list \<Rightarrow> string list" where
  "failed checks = map fst (filter (\<lambda>(k, ok). \<not> ok) checks)"

subsection \<open>BlogPostOut (main.py)\<close>

record BlogPostOut =
  title :: string
  slug :: string
  excerpt :: "string option"
  content :: string
  cover_image :: "string option"
  tags :: "string list"
  published :: bool
  published_at :: "int option"
  created_at :: "int option"
  updated_at :: "int option"

definition model_fields :: "string list" where
  "model_fields =
     [''title'', ''slug'', ''excerpt'', ''content'', ''cover_image'', ''tags'',
      ''published'', ''published_at'', ''created_at'', ''updated_at'']"

text \<open>\<^verbatim>\<open>BlogPostOut(**kw)\<close>: the validated instance, or the fields that failed.\<close>

definition BlogPostOut_new :: "coercion \<Rightarrow> doc \<Rightarrow> error + BlogPostOut" where
  "BlogPostOut_new co kw =
     (let f = map_of kw;
          bad = failed
            [(''title'', req_str (f ''title'') \<noteq> None),
             (''slug'', req_str (f ''slug'') \<noteq> None),
             (''excerpt'', opt_str (f ''excerpt'') \<noteq> None),
             (''content'', req_str (f ''content'') \<noteq> None),
             (''cover_image'', opt_str (f ''cover_image'') \<noteq> None),
             (''tags'', str_list (f ''tags'') \<noteq> None),
             (''published'', def_bool (bool_of_text co) True (f ''published'') \<noteq> None),
             (''published_at'', opt_time (datetime_of_text co) (f ''published_at'') \<noteq> None),
             (''created_at'', opt_time (datetime_of_text co) (f ''created_at'') \<noteq> None),
             (''updated_at'', opt_time (datetime_of_text co) (f ''updated_at'') \<noteq> None)]
      in if bad \<noteq> [] then Inl (ValidationError bad)
         else Inr \<lparr>title = the (req_str (f ''title'')),
                   slug = the (req_str (f ''slug'')),
                   excerpt = the (opt_str (f ''excerpt'')),
                   content = the (req_str (f ''content'')),
                   cover_image = the (opt_str (f ''cover_image'')),
                   tags = the (str_list (f ''tags'')),
                   published = the (def_bool (bool_of_text co) True (f ''published'')),
                   published_at = the (opt_time (datetime_of_text co) (f ''published_at'')),
                   created_at = the (opt_time (datetime_of_text co) (f ''created_at'')),
                   updated_at = the (opt_time (datetime_of_text co) (f ''updated_at''))\<rparr>)"

subsection \<open>Message (schemas.py)\<close>

record Message =
  name :: string
  email :: string
  phone :: "string option"
  subject :: "string option"
  message :: string
  source :: string

text \<open>
  The \<^verbatim>\<open>EmailStr\<close> field accepts a string in email format; the format check belongs to
  the validation library and is the parameter \<open>valid_email\<close>.
\<close>

definition email_str :: "(string \<Rightarrow> bool) \<Rightarrow> val option \<Rightarrow> string option" where
  "email_str valid_email v =
     (case req_str v of
        None \<Rightarrow> None
      | Some s \<Rightarrow> if valid_email s then Some s else None)"

definition Message_new :: "(string \<Rightarrow> bool) \<Rightarrow> doc \<Rightarrow> error + Message" where
  "Message_new valid_email kw =
     (let f = map_of kw;
          bad = failed
            [(''name'', req_str (f ''name'') \<noteq> None),
             (''email'', email_str valid_email (f ''email'') \<noteq> None),
             (''phone'', opt_str (f ''phone'') \<noteq> None),
             (''subject'', opt_str (f ''subject'') \<noteq> None),
             (''message'', req_str (f ''message'') \<noteq> None),
             (''source'', def_str ''website'' (f ''source'') \<noteq> None)]
      in if bad \<noteq> [] then Inl (ValidationError bad)
         else Inr \<lparr>name = the (req_str (f ''name'')),
                   email = the (email_str valid_email (f ''email'')),
                   phone = the (opt_str (f ''phone'')),
                   subject = the (opt_str (f ''subject'')),
                   message = the (req_str (f ''message'')),
                   source = the (def_str ''website'' (f ''source''))\<rparr>)"

text \<open>\<^verbatim>\<open>msg.model_dump()\<close>: the instance as a dict.\<close>

definition opt_val :: "string option \<Rightarrow> val" where
  "opt_val x = (case x of None \<Rightarrow> VNone | Some s \<Rightarrow> VStr s)"

definition model_dump :: "Message \<Rightarrow> doc" where
  "model_dump msg =
     [(''name'', VStr (name msg)),
      (''email'', VStr (email msg)),
      (''phone'', opt_val (phone msg)),
      (''subject'', opt_val (subject msg)),
      (''message'', VStr (message msg)),
      (''source'', VStr (source msg))]"

section \<open>Startup: seed sample data if empty\<close>

text \<open>The two fixtures; \<open>t1\<close> and \<open>t2\<close> are the two readings of the clock.\<close>

definition samples :: "int \<Rightarrow> int \<Rightarrow> doc list" where
  "samples t1 t2 =
     [[(''title'', VStr ''Building Strength in the City''),
       (''slug'', VStr ''building-strength-in-the-city''),
       (''excerpt'', VStr ''My go-to routine for busy Londoners who want real results.''),
       (''content'', VStr (''Living in London means your schedule is packed. Here's a 30-minute strength protocol '' @
                          ''you can do in any gym: 1) Compound lifts 2) Supersets 3) Finisher sled pushes. '' @
                          ''Track your progressive overload weekly.'')),
       (''cover_image'', VStr ''https://images.unsplash.com/photo-1517836357463-d25dfeac3438?q=80&w=1600''),
       (''tags'', VList [VStr ''strength'', VStr ''london'', VStr ''training'']),
       (''published'', VBool True),
       (''published_at'', VTime t1)],
      [(''title'', VStr ''Fueling for Performance: Simple Meal Guide''),
       (''slug'', VStr ''fueling-for-performance''),
       (''excerpt'', VStr ''A practical approach to macros while enjoying London food culture.''),
       (''content'', VStr (''Nutrition shouldn't be complicated. Focus on protein with every meal, '' @
                          ''colourful veg, and smart carbs around training windows. Here are my staple meals...'')),
       (''cover_image'', VStr ''https://images.unsplash.com/photo-1505252585461-04db1eb84625?q=80&w=1600''),
       (''tags'', VList [VStr ''nutrition'', VStr ''performance'']),
       (''published'', VBool True),
       (''published_at'', VTime t2)]]"

text \<open>\<^verbatim>\<open>for s in samples: create_document("blogpost", s)\<close>: the first exception ends the loop.\<close>

fun create_each :: "database \<Rightarrow> string \<Rightarrow> doc list \<Rightarrow> (error + unit) \<times> database" where
  "create_each db c [] = (Inr (), db)"
| "create_each db c (s # ss) =
     (case create_document db c s of
        (Inl e, db') \<Rightarrow> (Inl e, db')
      | (Inr u, db') \<Rightarrow> create_each db' c ss)"

text \<open>The body of the \<^verbatim>\<open>try\<close> block.\<close>

definition seed_try :: "int \<Rightarrow> int \<Rightarrow> store \<Rightarrow> (error + unit) \<times> database" where
  "seed_try t1 t2 st =
     (case count_documents st ''blogpost'' of
        Inl e \<Rightarrow> (Inl e, Some st)
      | Inr count \<Rightarrow>
          if count = 0 then create_each (Some st) ''blogpost'' (samples t1 t2)
          else (Inr (), Some st))"

definition seed_sample_blogposts :: "int \<Rightarrow> int \<Rightarrow> database \<Rightarrow> (error + unit) \<times> database" where
  "seed_sample_blogposts t1 t2 db =
     (case db of
        None \<Rightarrow> (Inr (), None)
      | Some st \<Rightarrow>
          (case seed_try t1 t2 st of
             (Inl e, db') \<Rightarrow> (Inr (), db')
           | (Inr u, db') \<Rightarrow> (Inr (), db')))"

section \<open>Blog endpoints\<close>

text \<open>The keyword arguments built from a raw document \<open>d\<close>:
  \<^verbatim>\<open>{**{k: v for k, v in d.items() if k in BlogPostOut.model_fields},
     "created_at": d.get("created_at"), "updated_at": d.get("updated_at")}\<close>.\<close>

definition out_kwargs :: "doc \<Rightarrow> doc" where
  "out_kwargs d =
     AList.update ''updated_at'' (dict_get d ''updated_at'')
       (AList.update ''created_at'' (dict_get d ''created_at'')
          (filter (\<lambda>(k, v). k \<in> set model_fields) d))"

definition to_out :: "coercion \<Rightarrow> doc \<Rightarrow> error + BlogPostOut" where
  "to_out co d = BlogPostOut_new co (out_kwargs d)"

text \<open>The list comprehension over \<open>docs\<close>: the first document that fails validation raises.\<close>

fun to_out_all :: "coercion \<Rightarrow> doc list \<Rightarrow> error + BlogPostOut list" where
  "to_out_all co [] = Inr []"
| "to_out_all co (d # ds) =
     (case to_out co d of
        Inl e \<Rightarrow> Inl e
      | Inr p \<Rightarrow> (case to_out_all co ds of Inl e \<Rightarrow> Inl e | Inr ps \<Rightarrow> Inr (p # ps)))"

definition list_sample :: BlogPostOut where
  "list_sample =
     \<lparr>title = ''Building Strength in the City'',
      slug = ''building-strength-in-the-city'',
      excerpt = Some ''My go-to routine for busy Londoners who want real results.'',
      content = ''Sample content'',
      cover_image = Some ''https://images.unsplash.com/photo-1517836357463-d25dfeac3438?q=80&w=1600'',
      tags = [''strength'', ''london'', ''training''],
      published = True,
      published_at = None,
      created_at = None,
      updated_at = None\<rparr>"

text \<open>The query dict of the list endpoint: \<^verbatim>\<open>q = {"published": True}\<close>, and
  \<^verbatim>\<open>q["tags"] = tag\<close> when \<^verbatim>\<open>tag\<close> is truthy (given and not the empty string).\<close>

definition list_query :: "string option \<Rightarrow> doc" where
  "list_query tag =
     (let q = [(''published'', VBool True)]
      in case tag of
           None \<Rightarrow> q
         | Some t \<Rightarrow> if t \<noteq> [] then AList.update ''tags'' (VStr t) q else q)"

definition list_blogposts ::
  "coercion \<Rightarrow> database \<Rightarrow> string option \<Rightarrow> error + BlogPostOut list" where
  "list_blogposts co db tag =
     (if db = None then Inr [list_sample]
      else case get_documents db ''blogpost'' (list_query tag) 50 of
             Inl e \<Rightarrow> Inl e
           | Inr docs \<Rightarrow> to_out_all co docs)"

definition get_sample :: BlogPostOut where
  "get_sample =
     \<lparr>title = ''Building Strength in the City'',
      slug = ''building-strength-in-the-city'',
      excerpt = Some ''My go-to routine for busy Londoners who want real results.'',
      content = ''Sample content'',
      cover_image = Some ''https://images.unsplash.com/photo-1517836357463-d25dfeac3438?q=80&w=1600'',
      tags = [''strength'', ''london'', ''training''],
      published = True,
      published_at = None,
      created_at = None,
      updated_at = None\<rparr>"

definition get_blogpost :: "coercion \<Rightarrow> database \<Rightarrow> string \<Rightarrow> error + BlogPostOut" where
  "get_blogpost co db slug' =
     (case db of
        None \<Rightarrow>
          if slug' = ''building-strength-in-the-city'' then Inr get_sample
          else Inl (HTTPException 404 ''Post not found'')
      | Some st \<Rightarrow>
          (case find_one st ''blogpost'' [(''slug'', VStr slug'), (''published'', VBool True)] of
             Inl e \<Rightarrow> Inl e
           | Inr None \<Rightarrow> Inl (HTTPException 404 ''Post not found'')
           | Inr (Some d) \<Rightarrow>
               if d = [] then Inl (HTTPException 404 ''Post not found'')
               else to_out co d))"

section \<open>Contact endpoint\<close>

datatype ack = Ack string string

text \<open>\<^verbatim>\<open>str(e)\<close> of a caught exception: the message it carries. The only exception
  the body of \<^verbatim>\<open>submit_contact\<close> can raise is the store's.\<close>

fun str_of_error :: "error \<Rightarrow> string" where
  "str_of_error (StoreError m) = m"
| "str_of_error (HTTPException c m) = m"
| "str_of_error (ValidationError fs) = concat fs"

definition submit_contact :: "database \<Rightarrow> Message \<Rightarrow> (error + ack) \<times> database" where
  "submit_contact db msg =
     (let data = model_dump msg
      in if db \<noteq> None then
           (case create_document db ''message'' data of
              (Inl e, db') \<Rightarrow> (Inl (HTTPException 500 (str_of_error e)), db')
            | (Inr u, db') \<Rightarrow> (Inr (Ack ''ok'' ''Thanks for reaching out!''), db'))
         else (Inr (Ack ''ok'' ''Thanks for reaching out!''), db))"

text \<open>
  The route \<^verbatim>\<open>POST /api/contact\<close>: the request body is validated against \<open>Message\<close>
  (the handler's parameter type) and the handler runs on the validated instance only.
\<close>

definition post_contact :: "(string \<Rightarrow> bool) \<Rightarrow> database \<Rightarrow> doc \<Rightarrow> (error + ack) \<times> database" where
  "post_contact valid_email db body =
     (case Message_new valid_email body of
        Inl e \<Rightarrow> (Inl e, db)
      | Inr msg \<Rightarrow> submit_contact db msg)"

section \<open>Example inputs\<close>

text \<open>Concrete stores, documents and request bodies on which the theorems below are
  instantiated.\<close>

definition ex_store :: store where
  "ex_store = \<lparr>colls = (\<lambda>c. []), read_error = None, write_error = (\<lambda>c d. None)\<rparr>"

definition ex_rejecting :: store where
  "ex_rejecting =
     \<lparr>colls = (\<lambda>c. []), read_error = None, write_error = (\<lambda>c d. Some ''write refused'')\<rparr>"

definition ex_unreadable :: store where
  "ex_unreadable =
     \<lparr>colls = (\<lambda>c. []), read_error = Some ''connection lost'', write_error = (\<lambda>c d. None)\<rparr>"

definition ex_draft :: doc where
  "ex_draft =
     [(''_id'', VId 1),
      (''title'', VStr ''Draft''),
      (''slug'', VStr ''draft''),
      (''content'', VStr ''Not yet''),
      (''tags'', VList [VStr ''london'']),
      (''published'', VBool False)]"

definition ex_post :: doc where
  "ex_post =
     [(''_id'', VId 2),
      (''title'', VStr ''Hello''),
      (''slug'', VStr ''hello''),
      (''content'', VStr ''Body''),
      (''tags'', VList [VStr ''london'']),
      (''published'', VBool True),
      (''created_at'', VTime 5),
      (''views'', VId 7)]"


definition ex_coerce :: coercion where
  "ex_coerce =
     \<lparr>bool_of_text =
        (\<lambda>x. if x \<in> set [''1'', ''on'', ''t'', ''true'', ''y'', ''yes''] then Some True
             else if x \<in> set [''0'', ''off'', ''f'', ''false'', ''n'', ''no''] then Some False
             else None),
      datetime_of_text = (\<lambda>x. if x = ''1970-01-01T00:00:05'' then Some 5 else None)\<rparr>"

definition ex_post_out :: BlogPostOut where
  "ex_post_out =
     \<lparr>title = ''Hello'', slug = ''hello'', excerpt = None, content = ''Body'',
      cover_image = None, tags = [''london''], published = True, published_at = None,
      created_at = Some 5, updated_at = None\<rparr>"

definition ex_blog :: store where
  "ex_blog =
     \<lparr>colls = (\<lambda>c. if c = ''blogpost'' then [ex_draft, ex_post] else []),
      read_error = None, write_error = (\<lambda>c d. None)\<rparr>"

definition ex_valid_email :: "string \<Rightarrow> bool" where
  "ex_valid_email s = (CHR ''@'' \<in> set s)"

definition ex_body :: doc where
  "ex_body =
     [(''name'', VStr ''Ada''),
      (''email'', VStr ''ada@example.org''),
      (''message'', VStr ''Hi'')]"

definition ex_msg :: Message where
  "ex_msg =
     \<lparr>name = ''Ada'', email = ''ada@example.org'', phone = None, subject = None,
      message = ''Hi'', source = ''website''\<rparr>"

definition ex_body_no_name :: doc where
  "ex_body_no_name =
     [(''email'', VStr ''ada@example.org''),
      (''message'', VStr ''Hi'')]"

definition ex_body_bad_email :: doc where
  "ex_body_bad_email =
     [(''name'', VStr ''Ada''),
      (''email'', VStr ''ada.example.org''),
      (''message'', VStr ''Hi'')]"


definition ex_other :: doc where
  "ex_other =
     [(''_id'', VId 3),
      (''title'', VStr ''Meals''),
      (''slug'', VStr ''meals''),
      (''content'', VStr ''Eat''),
      (''tags'', VList [VStr ''food'']),
      (''published'', VBool True)]"

definition ex_other_out :: BlogPostOut where
  "ex_other_out =
     \<lparr>title = ''Meals'', slug = ''meals'', excerpt = None, content = ''Eat'',
      cover_image = None, tags = [''food''], published = True, published_at = None,
      created_at = None, updated_at = None\<rparr>"

definition ex_tagged :: store where
  "ex_tagged =
     \<lparr>colls = (\<lambda>c. if c = ''blogpost'' then [ex_draft, ex_post, ex_other] else []),
      read_error = None, write_error = (\<lambda>c d. None)\<rparr>"

section \<open>Auxiliary facts\<close>

lemma failed_Nil_iff: "failed cs = [] \<longleftrightarrow> list_all snd cs"
  by (induction cs) (auto simp add: failed_def)

lemma map_of_out_kwargs:
  "map_of (out_kwargs d) k =
     (if k = ''updated_at'' \<or> k = ''created_at'' then Some (dict_get d k)
      else if k \<in> set model_fields then map_of d k else None)"
proof -
  have "filter (\<lambda>(k, v). k \<in> set model_fields) d = AList.restrict (set model_fields) d"
    by (simp add: AList.restrict_eq)
  then show ?thesis
    by (simp add: out_kwargs_def AList.update_conv' AList.restr_conv' restrict_map_def)
qed

lemma BlogPostOut_new_Inr:
  assumes "BlogPostOut_new co kw = Inr p"
  shows "req_str (map_of kw ''title'') = Some (title p)"
    and "req_str (map_of kw ''slug'') = Some (slug p)"
    and "opt_str (map_of kw ''excerpt'') = Some (excerpt p)"
    and "req_str (map_of kw ''content'') = Some (content p)"
    and "opt_str (map_of kw ''cover_image'') = Some (cover_image p)"
    and "str_list (map_of kw ''tags'') = Some (tags p)"
    and "def_bool (bool_of_text co) True (map_of kw ''published'') = Some (published p)"
    and "opt_time (datetime_of_text co) (map_of kw ''published_at'') = Some (published_at p)"
    and "opt_time (datetime_of_text co) (map_of kw ''created_at'') = Some (created_at p)"
    and "opt_time (datetime_of_text co) (map_of kw ''updated_at'') = Some (updated_at p)"
  using assms
  by (auto simp add: BlogPostOut_new_def Let_def failed_Nil_iff split: if_splits)

lemma model_fields_mem:
  "''title'' \<in> set model_fields" "''slug'' \<in> set model_fields"
  "''excerpt'' \<in> set model_fields" "''content'' \<in> set model_fields"
  "''cover_image'' \<in> set model_fields" "''tags'' \<in> set model_fields"
  "''published'' \<in> set model_fields" "''published_at'' \<in> set model_fields"
  "''created_at'' \<in> set model_fields" "''updated_at'' \<in> set model_fields"
  by (simp_all add: model_fields_def)

lemma to_out_published:
  "to_out co d = Inr p \<Longrightarrow>
   def_bool (bool_of_text co) True (map_of d ''published'') = Some (published p)"
  using BlogPostOut_new_Inr(7) [of co "out_kwargs d" p]
  by (simp add: to_out_def map_of_out_kwargs model_fields_mem)

lemma to_out_tags:
  "to_out co d = Inr p \<Longrightarrow> str_list (map_of d ''tags'') = Some (tags p)"
  using BlogPostOut_new_Inr(6) [of co "out_kwargs d" p]
  by (simp add: to_out_def map_of_out_kwargs model_fields_mem)




lemma fst_submit_contact:
  "fst (submit_contact db msg) =
     (case db of
        None \<Rightarrow> Inr (Ack ''ok'' ''Thanks for reaching out!'')
      | Some st \<Rightarrow>
          (case write_error st ''message'' (model_dump msg) of
             Some m \<Rightarrow> Inl (HTTPException 500 m)
           | None \<Rightarrow> Inr (Ack ''ok'' ''Thanks for reaching out!'')))"
  by (simp add: submit_contact_def create_document_def insert_one_def Let_def split: option.splits)

section \<open>Contact submission\<close>

text \<open>
  C1. For every valid ContactMessage input, submitting it is acknowledged with success when
  no store is configured and when the store accepts the insert; the only failure is the
  500 error, raised exactly when a reachable store rejects the insert (with the store's
  message as detail), never when the store is absent.
\<close>

theorem submit_contact_ack_unless_rejected:
  assumes "Message_new valid_email body = Inr msg"
  shows "post_contact valid_email None body = (Inr (Ack ''ok'' ''Thanks for reaching out!''), None)
    \<and> (write_error st ''message'' (model_dump msg) = None \<longrightarrow>
         fst (post_contact valid_email (Some st) body) = Inr (Ack ''ok'' ''Thanks for reaching out!''))
    \<and> (fst (post_contact valid_email db body) = Inl e \<longrightarrow>
         (\<exists>st' m. db = Some st' \<and> write_error st' ''message'' (model_dump msg) = Some m
                  \<and> e = HTTPException 500 m))"
proof -
  have p: "post_contact valid_email d body = submit_contact d msg" for d
    using assms by (simp add: post_contact_def)
  have a: "post_contact valid_email None body = (Inr (Ack ''ok'' ''Thanks for reaching out!''), None)"
    by (simp add: p submit_contact_def)
  have b: "write_error st ''message'' (model_dump msg) = None \<longrightarrow>
         fst (post_contact valid_email (Some st) body) = Inr (Ack ''ok'' ''Thanks for reaching out!'')"
    by (simp add: p fst_submit_contact)
  have c: "fst (post_contact valid_email db body) = Inl e \<longrightarrow>
         (\<exists>st' m. db = Some st' \<and> write_error st' ''message'' (model_dump msg) = Some m
                  \<and> e = HTTPException 500 m)"
    by (auto simp add: p fst_submit_contact split: option.splits)
  from a b c show ?thesis by blast
qed

theorem submit_contact_ack_unless_rejected_witness:
  "Message_new ex_valid_email ex_body = Inr ex_msg
   \<and> post_contact ex_valid_email None ex_body = (Inr (Ack ''ok'' ''Thanks for reaching out!''), None)
   \<and> write_error ex_store ''message'' (model_dump ex_msg) = None
   \<and> fst (post_contact ex_valid_email (Some ex_store) ex_body) = Inr (Ack ''ok'' ''Thanks for reaching out!'')
   \<and> fst (post_contact ex_valid_email (Some ex_rejecting) ex_body) = Inl (HTTPException 500 ''write refused'')
   \<and> (\<exists>st' m. Some ex_rejecting = Some st' \<and> write_error st' ''message'' (model_dump ex_msg) = Some m
                  \<and> HTTPException 500 ''write refused'' = HTTPException 500 m)"
proof -
  have v: "Message_new ex_valid_email ex_body = Inr ex_msg"
    by (simp add: Message_new_def ex_body_def ex_msg_def ex_valid_email_def failed_def
        email_str_def Let_def)
  have w: "write_error ex_store ''message'' (model_dump ex_msg) = None"
    by (simp add: ex_store_def)
  have r: "fst (post_contact ex_valid_email (Some ex_rejecting) ex_body)
           = Inl (HTTPException 500 ''write refused'')"
    by (simp add: post_contact_def v submit_contact_def create_document_def insert_one_def
        ex_rejecting_def)
  show ?thesis
    using v w r
      submit_contact_ack_unless_rejected [OF v, of ex_store "Some ex_rejecting"
        "HTTPException 500 ''write refused''"]
    by simp
qed

section \<open>Degraded mode\<close>

text \<open>
  C9. When no store is configured, the list operation returns the same one-element list
  for every value of the tag argument, also for a tag that the sample post does not carry:
  the tag filter has no effect.
\<close>

theorem list_blogposts_degraded_constant:
  "list_blogposts co None tag = Inr [list_sample]
   \<and> ''nutrition'' \<notin> set (tags list_sample)
   \<and> list_blogposts co None (Some ''nutrition'') = list_blogposts co None None"
  by (simp add: list_blogposts_def list_sample_def)

text \<open>
  C10. When no store is configured, the post returned for the slug
  building-strength-in-the-city equals, field for field, the single post the list
  operation returns.
\<close>

theorem degraded_get_equals_listed:
  "get_blogpost co None ''building-strength-in-the-city'' = Inr get_sample
   \<and> list_blogposts co None tag = Inr [list_sample]
   \<and> get_sample = list_sample
   \<and> title get_sample = title list_sample
   \<and> slug get_sample = slug list_sample
   \<and> excerpt get_sample = excerpt list_sample
   \<and> content get_sample = content list_sample
   \<and> cover_image get_sample = cover_image list_sample
   \<and> tags get_sample = tags list_sample
   \<and> published get_sample = published list_sample"
  by (simp add: get_blogpost_def list_blogposts_def get_sample_def list_sample_def)

section \<open>Seeding\<close>

lemma seed_try_read_failure:
  "read_error st = Some m \<Longrightarrow> seed_try t1 t2 st = (Inl (StoreError m), Some st)"
  by (simp add: seed_try_def count_documents_def)

lemma create_document_accepted:
  "write_error st c d = None \<Longrightarrow>
   create_document (Some st) c d = (Inr (), Some (st\<lparr>colls := (colls st)(c := colls st c @ [d])\<rparr>))"
  by (simp add: create_document_def insert_one_def)

lemma create_document_rejected:
  "write_error st c d = Some m \<Longrightarrow> create_document (Some st) c d = (Inl (StoreError m), Some st)"
  by (simp add: create_document_def insert_one_def)

lemma create_each_accepted:
  "\<forall>s\<in>set ss. write_error st c s = None \<Longrightarrow>
   create_each (Some st) c ss = (Inr (), Some (st\<lparr>colls := (colls st)(c := colls st c @ ss)\<rparr>))"
proof (induction ss arbitrary: st)
  case Nil
  then show ?case by simp
next
  case (Cons s ss)
  let ?st = "st\<lparr>colls := (colls st)(c := colls st c @ [s])\<rparr>"
  have "create_each (Some st) c (s # ss) = create_each (Some ?st) c ss"
    using Cons.prems by (simp add: create_document_accepted)
  also have "\<dots> = (Inr (), Some (?st\<lparr>colls := (colls ?st)(c := colls ?st c @ ss)\<rparr>))"
    using Cons.prems by (intro Cons.IH) simp
  also have "?st\<lparr>colls := (colls ?st)(c := colls ?st c @ ss)\<rparr>
             = st\<lparr>colls := (colls st)(c := colls st c @ s # ss)\<rparr>"
    by simp
  finally show ?case .
qed

lemma seed_nonempty:
  "colls st ''blogpost'' \<noteq> [] \<Longrightarrow> seed_sample_blogposts t1 t2 (Some st) = (Inr (), Some st)"
  by (simp add: seed_sample_blogposts_def seed_try_def count_documents_def split: option.splits)

lemma seed_empty:
  assumes "colls st ''blogpost'' = []" "read_error st = None"
    "\<forall>s\<in>set (samples t1 t2). write_error st ''blogpost'' s = None"
  shows "seed_sample_blogposts t1 t2 (Some st)
         = (Inr (), Some (st\<lparr>colls := (colls st)(''blogpost'' := samples t1 t2)\<rparr>))"
  using assms create_each_accepted [of "samples t1 t2" st "''blogpost''"]
  by (simp add: seed_sample_blogposts_def seed_try_def count_documents_def)

lemma samples_published:
  "\<forall>s\<in>set (samples t1 t2). map_of s ''published'' = Some (VBool True)"
  by (simp add: samples_def)

lemma length_samples: "length (samples t1 t2) = 2"
  by (simp add: samples_def)

text \<open>
  C6. The seeder is idempotent. When the blog-post collection holds a document it inserts
  nothing. When the collection is empty (and the store answers the count and accepts the
  two inserts) it inserts the fixed fixtures: the count is 2 afterwards, both fixtures are
  published, and a second run changes nothing.
\<close>

theorem seed_idempotent:
  "(colls st ''blogpost'' \<noteq> [] \<longrightarrow> seed_sample_blogposts t1 t2 (Some st) = (Inr (), Some st))
   \<and> (colls st ''blogpost'' = [] \<and> read_error st = None
        \<and> (\<forall>s\<in>set (samples t1 t2). write_error st ''blogpost'' s = None) \<longrightarrow>
      (\<exists>st'. seed_sample_blogposts t1 t2 (Some st) = (Inr (), Some st')
         \<and> colls st' ''blogpost'' = samples t1 t2
         \<and> count_documents st' ''blogpost'' = Inr 2
         \<and> (\<forall>s\<in>set (colls st' ''blogpost''). map_of s ''published'' = Some (VBool True))
         \<and> seed_sample_blogposts t3 t4 (Some st') = (Inr (), Some st')))"
proof -
  have a: "colls st ''blogpost'' \<noteq> [] \<longrightarrow> seed_sample_blogposts t1 t2 (Some st) = (Inr (), Some st)"
    by (simp add: seed_nonempty)
  have b: "\<exists>st'. seed_sample_blogposts t1 t2 (Some st) = (Inr (), Some st')
         \<and> colls st' ''blogpost'' = samples t1 t2
         \<and> count_documents st' ''blogpost'' = Inr 2
         \<and> (\<forall>s\<in>set (colls st' ''blogpost''). map_of s ''published'' = Some (VBool True))
         \<and> seed_sample_blogposts t3 t4 (Some st') = (Inr (), Some st')"
    if h: "colls st ''blogpost'' = []" "read_error st = None"
      "\<forall>s\<in>set (samples t1 t2). write_error st ''blogpost'' s = None"
  proof -
    let ?st = "st\<lparr>colls := (colls st)(''blogpost'' := samples t1 t2)\<rparr>"
    have 1: "seed_sample_blogposts t1 t2 (Some st) = (Inr (), Some ?st)"
      using h by (rule seed_empty)
    have 2: "colls ?st ''blogpost'' = samples t1 t2" by simp
    have 3: "count_documents ?st ''blogpost'' = Inr 2"
      using h(2) by (simp add: count_documents_def length_samples)
    have 4: "\<forall>s\<in>set (colls ?st ''blogpost''). map_of s ''published'' = Some (VBool True)"
      using samples_published by simp
    have "colls ?st ''blogpost'' \<noteq> []" using length_samples [of t1 t2] by auto
    then have 5: "seed_sample_blogposts t3 t4 (Some ?st) = (Inr (), Some ?st)"
      by (rule seed_nonempty)
    from 1 2 3 4 5 show ?thesis by blast
  qed
  from a b show ?thesis by blast
qed

theorem seed_idempotent_witness:
  "colls ex_blog ''blogpost'' \<noteq> []
   \<and> seed_sample_blogposts 1 2 (Some ex_blog) = (Inr (), Some ex_blog)
   \<and> colls ex_store ''blogpost'' = [] \<and> read_error ex_store = None
   \<and> list_all (\<lambda>s. write_error ex_store ''blogpost'' s = None) (samples 1 2)
   \<and> (\<exists>st'. seed_sample_blogposts 1 2 (Some ex_store) = (Inr (), Some st')
         \<and> colls st' ''blogpost'' = samples 1 2
         \<and> count_documents st' ''blogpost'' = Inr 2
         \<and> list_all (\<lambda>s. map_of s ''published'' = Some (VBool True)) (colls st' ''blogpost'')
         \<and> seed_sample_blogposts 3 4 (Some st') = (Inr (), Some st'))"
  using seed_idempotent [of ex_blog 1 2 3 4] seed_idempotent [of ex_store 1 2 3 4]
  by (simp add: ex_blog_def ex_store_def list_all_iff)

text \<open>
  C7. Seeding never raises, whatever the store does: with no store it returns at once, and
  a failing count query or a rejected write is caught and discarded. On the store whose
  reads fail and on the store that rejects every write, the body of the try block ends in
  the store's error and the seeder still returns normally.
\<close>

theorem seed_never_raises:
  "fst (seed_sample_blogposts t1 t2 db) = Inr ()
   \<and> seed_sample_blogposts t1 t2 None = (Inr (), None)
   \<and> seed_try t1 t2 ex_unreadable = (Inl (StoreError ''connection lost''), Some ex_unreadable)
   \<and> seed_sample_blogposts t1 t2 (Some ex_unreadable) = (Inr (), Some ex_unreadable)
   \<and> seed_try t1 t2 ex_rejecting = (Inl (StoreError ''write refused''), Some ex_rejecting)
   \<and> seed_sample_blogposts t1 t2 (Some ex_rejecting) = (Inr (), Some ex_rejecting)"
proof -
  have 1: "fst (seed_sample_blogposts t1 t2 db) = Inr ()"
    by (simp add: seed_sample_blogposts_def split: option.splits prod.splits sum.splits)
  have 2: "seed_try t1 t2 ex_unreadable = (Inl (StoreError ''connection lost''), Some ex_unreadable)"
    by (rule seed_try_read_failure) (simp add: ex_unreadable_def)
  have "write_error ex_rejecting ''blogpost'' d = Some ''write refused''" for d
    by (simp add: ex_rejecting_def)
  then have 3: "seed_try t1 t2 ex_rejecting = (Inl (StoreError ''write refused''), Some ex_rejecting)"
    by (simp add: seed_try_def count_documents_def samples_def create_document_rejected
        ex_rejecting_def)
  from 1 2 3 show ?thesis
    by (simp add: seed_sample_blogposts_def)
qed

section \<open>Retrieval by slug\<close>

lemma find_matches_nonempty:
  "List.find (matches ((k, VStr s) # q)) ds = Some d \<Longrightarrow> d \<noteq> []"
  by (auto simp add: find_Some_iff matches_def field_matches_def)

lemma get_blogpost_store:
  "read_error st = None \<Longrightarrow>
   get_blogpost co (Some st) s =
     (case List.find (matches [(''slug'', VStr s), (''published'', VBool True)]) (colls st ''blogpost'') of
        None \<Rightarrow> Inl (HTTPException 404 ''Post not found'')
      | Some d \<Rightarrow> to_out co d)"
  using find_matches_nonempty [of "''slug''" s "[(''published'', VBool True)]" "colls st ''blogpost''"]
  by (simp add: get_blogpost_def find_one_def split: option.splits)

text \<open>
  C3. Retrieval by slug. With no store, the hard-coded sample post is returned exactly for
  the slug building-strength-in-the-city, and every other slug fails with NotFound. With a
  store, the lookup is by slug and published = true: the first matching document is
  returned in the output shape, and NotFound is raised when no document matches.
\<close>

theorem get_blogpost_by_slug:
  "get_blogpost co None s =
     (if s = ''building-strength-in-the-city'' then Inr get_sample
      else Inl (HTTPException 404 ''Post not found''))
   \<and> slug get_sample = ''building-strength-in-the-city''
   \<and> (read_error st = None \<longrightarrow>
        get_blogpost co (Some st) s =
          (case List.find (matches [(''slug'', VStr s), (''published'', VBool True)])
                  (colls st ''blogpost'') of
             None \<Rightarrow> Inl (HTTPException 404 ''Post not found'')
           | Some d \<Rightarrow> to_out co d))
   \<and> (read_error st = None
        \<and> (\<forall>d\<in>set (colls st ''blogpost'').
              \<not> matches [(''slug'', VStr s), (''published'', VBool True)] d) \<longrightarrow>
        get_blogpost co (Some st) s = Inl (HTTPException 404 ''Post not found''))"
proof -
  have a: "get_blogpost co None s =
     (if s = ''building-strength-in-the-city'' then Inr get_sample
      else Inl (HTTPException 404 ''Post not found''))"
    by (simp add: get_blogpost_def)
  have b: "slug get_sample = ''building-strength-in-the-city''"
    by (simp add: get_sample_def)
  have d: "get_blogpost co (Some st) s = Inl (HTTPException 404 ''Post not found'')"
    if "read_error st = None"
      "\<forall>d\<in>set (colls st ''blogpost''). \<not> matches [(''slug'', VStr s), (''published'', VBool True)] d"
  proof -
    have "List.find (matches [(''slug'', VStr s), (''published'', VBool True)]) (colls st ''blogpost'') = None"
      using that(2) by (simp add: find_None_iff)
    then show ?thesis using that(1) by (simp add: get_blogpost_store)
  qed
  from a b d get_blogpost_store [of st co s] show ?thesis by blast
qed

lemma to_out_ex_post: "to_out co ex_post = Inr ex_post_out"
  by (auto simp add: to_out_def out_kwargs_def model_fields_def dict_get_def ex_post_def
      ex_post_out_def BlogPostOut_new_def failed_def Let_def)

lemma to_out_ex_draft: "\<exists>p. to_out co ex_draft = Inr p \<and> \<not> published p"
  by (auto simp add: to_out_def out_kwargs_def model_fields_def dict_get_def ex_draft_def
      BlogPostOut_new_def failed_def Let_def)

lemma ex_blog_simps:
  "read_error ex_blog = None" "colls ex_blog ''blogpost'' = [ex_draft, ex_post]"
  by (simp_all add: ex_blog_def)

lemma ex_matches:
  "\<not> matches [(''slug'', VStr ''draft''), (''published'', VBool True)] ex_draft"
  "\<not> matches [(''slug'', VStr ''draft''), (''published'', VBool True)] ex_post"
  "\<not> matches [(''slug'', VStr ''hello''), (''published'', VBool True)] ex_draft"
  "matches [(''slug'', VStr ''hello''), (''published'', VBool True)] ex_post"
  by (simp_all add: matches_def field_matches_def ex_draft_def ex_post_def)

theorem get_blogpost_by_slug_witness:
  "get_blogpost ex_coerce None ''building-strength-in-the-city'' = Inr get_sample
   \<and> get_blogpost ex_coerce None ''nonexistent-slug'' = Inl (HTTPException 404 ''Post not found'')
   \<and> read_error ex_blog = None
   \<and> get_blogpost ex_coerce (Some ex_blog) ''hello'' = Inr ex_post_out
   \<and> list_all (\<lambda>d. \<not> matches [(''slug'', VStr ''draft''), (''published'', VBool True)] d)
        (colls ex_blog ''blogpost'')
   \<and> get_blogpost ex_coerce (Some ex_blog) ''draft'' = Inl (HTTPException 404 ''Post not found'')"
  using get_blogpost_by_slug [of ex_coerce "''building-strength-in-the-city''" ex_blog]
    get_blogpost_by_slug [of ex_coerce "''nonexistent-slug''" ex_blog]
    get_blogpost_by_slug [of ex_coerce "''hello''" ex_blog]
    get_blogpost_by_slug [of ex_coerce "''draft''" ex_blog]
  by (simp add: ex_blog_simps ex_matches to_out_ex_post)

section \<open>Validation of contact messages\<close>

lemma failed_mem: "(k, False) \<in> set cs \<Longrightarrow> k \<in> set (failed cs)"
  by (force simp add: failed_def)

lemma Message_new_Inl:
  "Message_new ve body = Inl e \<Longrightarrow> \<exists>fs. e = ValidationError fs \<and> fs \<noteq> []"
  by (auto simp add: Message_new_def Let_def split: if_splits)

lemma Message_new_bad:
  assumes "k \<in> set (failed
            [(''name'', req_str (map_of body ''name'') \<noteq> None),
             (''email'', email_str ve (map_of body ''email'') \<noteq> None),
             (''phone'', opt_str (map_of body ''phone'') \<noteq> None),
             (''subject'', opt_str (map_of body ''subject'') \<noteq> None),
             (''message'', req_str (map_of body ''message'') \<noteq> None),
             (''source'', def_str ''website'' (map_of body ''source'') \<noteq> None)])"
  shows "\<exists>fs. Message_new ve body = Inl (ValidationError fs) \<and> k \<in> set fs"
  using assms by (auto simp add: Message_new_def Let_def)

lemma Message_new_no_name:
  "map_of body ''name'' = None \<Longrightarrow>
   \<exists>fs. Message_new ve body = Inl (ValidationError fs) \<and> ''name'' \<in> set fs"
  by (rule Message_new_bad, rule failed_mem) simp

lemma Message_new_bad_email:
  "map_of body ''email'' = Some (VStr a) \<Longrightarrow> \<not> ve a \<Longrightarrow>
   \<exists>fs. Message_new ve body = Inl (ValidationError fs) \<and> ''email'' \<in> set fs"
  by (rule Message_new_bad, rule failed_mem) (simp add: email_str_def)

lemma post_contact_invalid:
  "Message_new ve body = Inl e \<Longrightarrow> post_contact ve db body = (Inl e, db)"
  by (simp add: post_contact_def)

text \<open>
  C5. An invalid ContactMessage (in particular one without a name, or with a malformed
  email) fails with ValidationError naming the field, and the store is left as it was: no
  create on the message collection takes place.
\<close>

theorem invalid_contact_rejected_before_store:
  "(Message_new ve body = Inl e \<longrightarrow>
      post_contact ve db body = (Inl e, db) \<and> (\<exists>fs. e = ValidationError fs \<and> fs \<noteq> []))
   \<and> (map_of body ''name'' = None \<longrightarrow>
        (\<exists>fs. post_contact ve db body = (Inl (ValidationError fs), db) \<and> ''name'' \<in> set fs))
   \<and> (map_of body ''email'' = Some (VStr a) \<and> \<not> ve a \<longrightarrow>
        (\<exists>fs. post_contact ve db body = (Inl (ValidationError fs), db) \<and> ''email'' \<in> set fs))"
proof -
  have 1: "post_contact ve db body = (Inl e, db) \<and> (\<exists>fs. e = ValidationError fs \<and> fs \<noteq> [])"
    if "Message_new ve body = Inl e"
    using that by (simp add: post_contact_invalid Message_new_Inl)
  have 2: "\<exists>fs. post_contact ve db body = (Inl (ValidationError fs), db) \<and> ''name'' \<in> set fs"
    if "map_of body ''name'' = None"
    using that Message_new_no_name [of body ve] by (auto simp add: post_contact_invalid)
  have 3: "\<exists>fs. post_contact ve db body = (Inl (ValidationError fs), db) \<and> ''email'' \<in> set fs"
    if "map_of body ''email'' = Some (VStr a)" "\<not> ve a"
    using that Message_new_bad_email [of body a ve] by (auto simp add: post_contact_invalid)
  from 1 2 3 show ?thesis by blast
qed

theorem invalid_contact_rejected_before_store_witness:
  "Message_new ex_valid_email ex_body_no_name = Inl (ValidationError [''name''])
   \<and> post_contact ex_valid_email (Some ex_store) ex_body_no_name
       = (Inl (ValidationError [''name'']), Some ex_store)
   \<and> map_of ex_body_no_name ''name'' = None
   \<and> (\<exists>fs. post_contact ex_valid_email (Some ex_store) ex_body_no_name
              = (Inl (ValidationError fs), Some ex_store) \<and> ''name'' \<in> set fs)
   \<and> map_of ex_body_bad_email ''email'' = Some (VStr ''ada.example.org'')
   \<and> \<not> ex_valid_email ''ada.example.org''
   \<and> (\<exists>fs. post_contact ex_valid_email (Some ex_store) ex_body_bad_email
              = (Inl (ValidationError fs), Some ex_store) \<and> ''email'' \<in> set fs)"
proof -
  have v: "Message_new ex_valid_email ex_body_no_name = Inl (ValidationError [''name''])"
    by (simp add: Message_new_def ex_body_no_name_def ex_valid_email_def failed_def
        email_str_def Let_def)
  have n: "map_of ex_body_no_name ''name'' = None"
    by (simp add: ex_body_no_name_def)
  have m: "map_of ex_body_bad_email ''email'' = Some (VStr ''ada.example.org'')"
    by (simp add: ex_body_bad_email_def)
  have b: "\<not> ex_valid_email ''ada.example.org''"
    by (simp add: ex_valid_email_def)
  show ?thesis
    using v n m b
      invalid_contact_rejected_before_store [of ex_valid_email ex_body_no_name
        "ValidationError [''name'']" "Some ex_store" "''x''"]
      invalid_contact_rejected_before_store [of ex_valid_email ex_body_bad_email
        "ValidationError [''email'']" "Some ex_store" "''ada.example.org''"]
    by simp
qed


section \<open>Published posts only\<close>

lemma to_out_all_mem:
  "to_out_all co ds = Inr ps \<Longrightarrow> p \<in> set ps \<Longrightarrow> \<exists>d\<in>set ds. to_out co d = Inr p"
  by (induction ds arbitrary: ps) (auto split: sum.splits)

lemma to_out_all_length: "to_out_all co ds = Inr ps \<Longrightarrow> length ps = length ds"
  by (induction ds arbitrary: ps) (auto split: sum.splits)

lemma find_Some_mem: "List.find P xs = Some x \<Longrightarrow> P x \<and> x \<in> set xs"
  by (induction xs) (auto split: if_splits)

lemma list_blogposts_store:
  "read_error st = None \<Longrightarrow>
   list_blogposts co (Some st) tag
     = to_out_all co (take 50 (filter (matches (list_query tag)) (colls st ''blogpost'')))"
  by (simp add: list_blogposts_def get_documents_def)

lemma list_blogposts_store_Inr:
  "list_blogposts co (Some st) tag = Inr ps \<Longrightarrow>
   to_out_all co (take 50 (filter (matches (list_query tag)) (colls st ''blogpost''))) = Inr ps"
  by (simp add: list_blogposts_def get_documents_def split: option.splits sum.splits)

lemma list_blogposts_mem:
  assumes "list_blogposts co db tag = Inr ps" "p \<in> set ps"
  shows "(db = None \<and> p = list_sample)
         \<or> (\<exists>st d. db = Some st \<and> d \<in> set (colls st ''blogpost'')
                \<and> matches (list_query tag) d \<and> to_out co d = Inr p)"
proof (cases db)
  case None
  then show ?thesis using assms by (auto simp add: list_blogposts_def)
next
  case (Some st)
  then obtain d where "d \<in> set (take 50 (filter (matches (list_query tag)) (colls st ''blogpost'')))"
    "to_out co d = Inr p"
    using assms list_blogposts_store_Inr [of co st tag ps] to_out_all_mem by blast
  moreover from this(1) have "d \<in> set (filter (matches (list_query tag)) (colls st ''blogpost''))"
    by (rule in_set_takeD)
  ultimately show ?thesis using Some by auto
qed

lemma get_blogpost_mem:
  assumes "get_blogpost co db s = Inr p"
  shows "(db = None \<and> p = get_sample)
         \<or> (\<exists>st d. db = Some st \<and> d \<in> set (colls st ''blogpost'')
                \<and> matches [(''slug'', VStr s), (''published'', VBool True)] d \<and> to_out co d = Inr p)"
proof (cases db)
  case None
  then show ?thesis using assms by (simp add: get_blogpost_def split: if_splits)
next
  case (Some st)
  then obtain d where
    "List.find (matches [(''slug'', VStr s), (''published'', VBool True)]) (colls st ''blogpost'') = Some d"
    "to_out co d = Inr p"
    using assms
    by (auto simp add: get_blogpost_def find_one_def split: option.splits sum.splits if_splits)
  then show ?thesis using Some find_Some_mem [of _ "colls st ''blogpost''" d] by blast
qed

lemma list_query_published: "(''published'', VBool True) \<in> set (list_query tag)"
  by (simp add: list_query_def Let_def split: option.splits)

lemma matches_field: "matches q d \<Longrightarrow> (k, v) \<in> set q \<Longrightarrow> field_matches (map_of d k) v"
  by (auto simp add: matches_def list_all_iff)

lemma published_of_match:
  assumes "field_matches (map_of d ''published'') (VBool True)" "to_out co d = Inr p"
  shows "published p"
proof -
  have "def_bool (bool_of_text co) True (map_of d ''published'') = Some (published p)"
    using assms(2) by (rule to_out_published)
  then show ?thesis using assms(1)
    by (cases "map_of d ''published''"; cases "the (map_of d ''published'')")
       (auto simp add: field_matches_def)
qed

lemma unpublished_no_match:
  "map_of d ''published'' = Some (VBool False) \<Longrightarrow> (''published'', VBool True) \<in> set q
   \<Longrightarrow> \<not> matches q d"
  using matches_field [of q d "''published''" "VBool True"]
  by (auto simp add: field_matches_def)

lemma list_blogposts_published:
  "list_blogposts co db tag = Inr ps \<Longrightarrow> p \<in> set ps \<Longrightarrow> published p"
  using list_blogposts_mem [of co db tag ps p] list_query_published [of tag]
  by (auto simp add: list_sample_def dest: matches_field published_of_match)

lemma get_blogpost_published:
  "get_blogpost co db s = Inr p \<Longrightarrow> published p"
  using get_blogpost_mem [of co db s p]
  by (auto simp add: get_sample_def dest!: matches_field [where k = "''published''" and v = "VBool True"] dest: published_of_match)

lemma unpublished_out:
  "map_of d ''published'' = Some (VBool False) \<Longrightarrow> to_out co d = Inr q \<Longrightarrow> \<not> published q"
  using to_out_published [of co d q] by simp

text \<open>
  C4. A blog post document with published = false never appears in a result: it matches
  neither the list query nor the single-post query, every post returned by either
  operation is published, and so the output shape of such a document is never returned.
\<close>

theorem unpublished_never_returned:
  "(list_blogposts co db tag = Inr ps \<longrightarrow> (\<forall>p\<in>set ps. published p))
   \<and> (get_blogpost co db s = Inr p \<longrightarrow> published p)
   \<and> (map_of d ''published'' = Some (VBool False) \<longrightarrow>
        \<not> matches (list_query tag) d
        \<and> \<not> matches [(''slug'', VStr s), (''published'', VBool True)] d
        \<and> (\<forall>q. to_out co d = Inr q \<longrightarrow>
              get_blogpost co db s \<noteq> Inr q
              \<and> (\<forall>ps. list_blogposts co db tag = Inr ps \<longrightarrow> q \<notin> set ps)))"
proof -
  have 1: "list_blogposts co db tag = Inr ps \<longrightarrow> (\<forall>p\<in>set ps. published p)"
    using list_blogposts_published by blast
  have 2: "get_blogpost co db s = Inr p \<longrightarrow> published p"
    using get_blogpost_published by blast
  have 3: "\<not> matches (list_query tag) d"
    if "map_of d ''published'' = Some (VBool False)"
    using that list_query_published by (rule unpublished_no_match)
  have 4: "\<not> matches [(''slug'', VStr s), (''published'', VBool True)] d"
    if "map_of d ''published'' = Some (VBool False)"
    using that by (rule unpublished_no_match) simp
  have 5: "get_blogpost co db s \<noteq> Inr q \<and> (\<forall>ps. list_blogposts co db tag = Inr ps \<longrightarrow> q \<notin> set ps)"
    if "map_of d ''published'' = Some (VBool False)" "to_out co d = Inr q" for q
    using unpublished_out [OF that] get_blogpost_published [of co db s q]
      list_blogposts_published [of co db tag _ q] by blast
  from 1 2 3 4 5 show ?thesis by blast
qed

lemma list_blogposts_ex_blog: "list_blogposts co (Some ex_blog) None = Inr [ex_post_out]"
  by (simp add: list_blogposts_store ex_blog_simps list_query_def matches_def
      field_matches_def ex_draft_def to_out_ex_post)
     (simp add: ex_post_def)

lemma get_blogpost_ex_hello: "get_blogpost co (Some ex_blog) ''hello'' = Inr ex_post_out"
  by (simp add: get_blogpost_store ex_blog_simps ex_matches to_out_ex_post)

theorem unpublished_never_returned_witness:
  "list_blogposts ex_coerce (Some ex_blog) None = Inr [ex_post_out]
   \<and> list_all published [ex_post_out]
   \<and> get_blogpost ex_coerce (Some ex_blog) ''hello'' = Inr ex_post_out
   \<and> published ex_post_out
   \<and> map_of ex_draft ''published'' = Some (VBool False)
   \<and> ex_draft \<in> set (colls ex_blog ''blogpost'')
   \<and> \<not> matches (list_query None) ex_draft
   \<and> \<not> matches [(''slug'', VStr ''draft''), (''published'', VBool True)] ex_draft
   \<and> (\<exists>q. to_out ex_coerce ex_draft = Inr q \<and> get_blogpost ex_coerce (Some ex_blog) ''draft'' \<noteq> Inr q
          \<and> q \<notin> set [ex_post_out])"
proof -
  have u: "map_of ex_draft ''published'' = Some (VBool False)"
    by (simp add: ex_draft_def)
  obtain q where q: "to_out ex_coerce ex_draft = Inr q" using to_out_ex_draft by blast
  have m: "ex_draft \<in> set (colls ex_blog ''blogpost'')"
    by (simp add: ex_blog_simps)
  show ?thesis
    using u q m list_blogposts_ex_blog get_blogpost_ex_hello
      unpublished_never_returned [of ex_coerce "Some ex_blog" None "[ex_post_out]" "''hello''" ex_post_out ex_draft]
      unpublished_never_returned [of ex_coerce "Some ex_blog" None "[ex_post_out]" "''draft''" q ex_draft]
    by (auto simp add: list_all_iff)
qed

section \<open>Mapping documents into the output shape\<close>













section \<open>Listing with a tag filter\<close>

lemma str_items_mem:
  "str_items vs = Some ss \<Longrightarrow> VStr t \<in> set vs \<Longrightarrow> t \<in> set ss"
  by (induction vs arbitrary: ss rule: str_items.induct) (auto split: option.splits)

lemma tag_of_match:
  assumes "field_matches (map_of d ''tags'') (VStr t)" "to_out co d = Inr p"
  shows "t \<in> set (tags p)"
proof -
  have "str_list (map_of d ''tags'') = Some (tags p)"
    using assms(2) by (rule to_out_tags)
  then show ?thesis using assms(1)
    by (cases "map_of d ''tags''"; cases "the (map_of d ''tags'')")
       (auto simp add: field_matches_def dest: str_items_mem)
qed

lemma list_query_tag:
  "t \<noteq> [] \<Longrightarrow> list_query (Some t) = [(''published'', VBool True), (''tags'', VStr t)]"
  by (simp add: list_query_def)

lemma list_query_none:
  "tag = None \<or> tag = Some [] \<Longrightarrow> list_query tag = [(''published'', VBool True)]"
  by (auto simp add: list_query_def)

lemma list_blogposts_tagged:
  assumes "t \<noteq> []" "list_blogposts co (Some st) (Some t) = Inr ps" "p \<in> set ps"
  shows "t \<in> set (tags p)"
proof -
  obtain d where d: "matches (list_query (Some t)) d" "to_out co d = Inr p"
    using list_blogposts_mem [OF assms(2,3)] by auto
  have "field_matches (map_of d ''tags'') (VStr t)"
    using d(1) assms(1) by (intro matches_field [of "list_query (Some t)"]) (simp_all add: list_query_tag)
  then show ?thesis using d(2) by (rule tag_of_match)
qed

lemma list_blogposts_cap: "list_blogposts co (Some st) tag = Inr ps \<Longrightarrow> length ps \<le> 50"
  using list_blogposts_store_Inr [of co st tag ps]
    to_out_all_length [of co "take 50 (filter (matches (list_query tag)) (colls st ''blogpost''))" ps]
  by simp

text \<open>
  C2, as stated, fails: with no store the sample post is returned for a tag it does not
  carry, and an empty tag is treated as no filter.
\<close>

theorem list_tag_filter_counterexample:
  "list_blogposts ex_coerce None (Some ''nutrition'') = Inr [list_sample]
   \<and> ''nutrition'' \<notin> set (tags list_sample)
   \<and> list_blogposts ex_coerce (Some ex_blog) (Some []) = Inr [ex_post_out]
   \<and> [] \<notin> set (tags ex_post_out)"
proof -
  have "list_blogposts ex_coerce (Some ex_blog) (Some []) = list_blogposts ex_coerce (Some ex_blog) None"
    by (simp add: list_blogposts_def list_query_def)
  then show ?thesis
    by (simp add: list_blogposts_ex_blog)
       (simp add: list_blogposts_def list_sample_def ex_post_out_def)
qed

text \<open>
  C2, amended. On an available store, a list call with a non-empty tag returns only posts
  whose tags contain that exact tag; with the tag omitted or empty the result is the
  documents matching published = true, in store order, capped at 50, in the output shape.
  No result is longer than 50. With no store the result is the one sample post, whatever
  the tag.
\<close>

theorem list_tag_filter_store:
  "(t \<noteq> [] \<and> list_blogposts co (Some st) (Some t) = Inr ps \<longrightarrow> (\<forall>p\<in>set ps. t \<in> set (tags p)))
   \<and> (read_error st = None \<and> (tag = None \<or> tag = Some []) \<longrightarrow>
        list_blogposts co (Some st) tag
          = to_out_all co (take 50 (filter (matches [(''published'', VBool True)])
                                   (colls st ''blogpost''))))
   \<and> (list_blogposts co (Some st) tag = Inr qs \<longrightarrow> length qs \<le> 50)
   \<and> list_blogposts co None tag = Inr [list_sample]"
proof -
  have 1: "t \<noteq> [] \<and> list_blogposts co (Some st) (Some t) = Inr ps \<longrightarrow> (\<forall>p\<in>set ps. t \<in> set (tags p))"
    using list_blogposts_tagged by blast
  have 2: "list_blogposts co (Some st) tag
          = to_out_all co (take 50 (filter (matches [(''published'', VBool True)])
                                   (colls st ''blogpost'')))"
    if "read_error st = None" "tag = None \<or> tag = Some []"
    using that by (simp add: list_blogposts_store list_query_none)
  have 3: "list_blogposts co (Some st) tag = Inr qs \<longrightarrow> length qs \<le> 50"
    using list_blogposts_cap by blast
  have 4: "list_blogposts co None tag = Inr [list_sample]"
    by (simp add: list_blogposts_def)
  from 1 2 3 4 show ?thesis by blast
qed

lemma to_out_ex_other: "to_out co ex_other = Inr ex_other_out"
  by (auto simp add: to_out_def out_kwargs_def model_fields_def dict_get_def ex_other_def
      ex_other_out_def BlogPostOut_new_def failed_def Let_def)

lemma ex_tagged_simps:
  "read_error ex_tagged = None" "colls ex_tagged ''blogpost'' = [ex_draft, ex_post, ex_other]"
  by (simp_all add: ex_tagged_def)

lemma ex_list_matches:
  "\<not> matches [(''published'', VBool True)] ex_draft"
  "matches [(''published'', VBool True)] ex_post"
  "matches [(''published'', VBool True)] ex_other"
  "\<not> matches [(''published'', VBool True), (''tags'', VStr ''london'')] ex_draft"
  "matches [(''published'', VBool True), (''tags'', VStr ''london'')] ex_post"
  "\<not> matches [(''published'', VBool True), (''tags'', VStr ''london'')] ex_other"
  by (simp_all add: matches_def field_matches_def ex_draft_def ex_post_def ex_other_def)

lemma list_blogposts_ex_tagged:
  "list_blogposts co (Some ex_tagged) (Some ''london'') = Inr [ex_post_out]"
  "list_blogposts co (Some ex_tagged) None = Inr [ex_post_out, ex_other_out]"
  by (simp_all add: list_blogposts_store ex_tagged_simps list_query_tag list_query_none
      ex_list_matches to_out_ex_post to_out_ex_other)

theorem list_tag_filter_store_witness:
  "''london'' \<noteq> []
   \<and> list_blogposts ex_coerce (Some ex_tagged) (Some ''london'') = Inr [ex_post_out]
   \<and> list_all (\<lambda>p. ''london'' \<in> set (tags p)) [ex_post_out]
   \<and> read_error ex_tagged = None
   \<and> list_blogposts ex_coerce (Some ex_tagged) None = Inr [ex_post_out, ex_other_out]
   \<and> to_out_all ex_coerce (take 50 (filter (matches [(''published'', VBool True)])
                            (colls ex_tagged ''blogpost''))) = Inr [ex_post_out, ex_other_out]
   \<and> length [ex_post_out, ex_other_out] \<le> 50
   \<and> list_blogposts ex_coerce None None = Inr [list_sample]"
  using list_blogposts_ex_tagged ex_tagged_simps(1)
    list_tag_filter_store [of "''london''" ex_coerce ex_tagged "[ex_post_out]" None
      "[ex_post_out, ex_other_out]"]
  by (simp add: list_all_iff)

end
